theory Spec2Isabelle
  imports Complex_Main "HOL-Library.Multiset"
begin

section \<open>The yarn weight calculator (weights.js)\<close>

text \<open>
  JavaScript numbers are modelled as exact reals, the type the data model of the
  specification gives to thickness, wpi and gauge; IEEE rounding is outside the model.
  Where the source divides, the quotient is a \<open>number\<close>, which keeps the non-finite
  results of a division by zero apart from the finite ones.
\<close>

datatype number = Num real | Infinite | NaN

datatype error = TypeError | NonTermination

record gauge =
  stitches :: real
  rows :: real
  per :: string

record needle =
  mm :: real
  us :: string

record visual =
  color :: string
  twist :: real

record weight =
  weight_id :: int
  name :: string
  thickness :: real
  wpi :: real
  gauge :: gauge
  needleSize :: needle
  visual :: visual

record suggestion =
  sg_strands :: "int list"
  sg_result :: int
  description :: string

record weightsData =
  wd_weights :: "weight list"
  suggestedCombinations :: "suggestion list option"

record calculator =
  weights :: "weight list"
  suggestions :: "suggestion list"
  weightById :: "int \<Rightarrow> weight option"

text \<open>
  \<open>buildLookups\<close>: the \<open>forEach\<close> stores every weight under its id, a later weight
  replacing an earlier one with the same id. (The lookup by lower-cased name is built
  by the same loop and is read by no operation modelled here.)
\<close>

definition buildLookups :: "weight list \<Rightarrow> int \<Rightarrow> weight option" where
  "buildLookups ws = fold (\<lambda>w m. m(weight_id w \<mapsto> w)) ws Map.empty"

definition YarnWeightCalculator :: "weightsData \<Rightarrow> calculator" where
  "YarnWeightCalculator wd =
     \<lparr>weights = wd_weights wd,
      suggestions = (case suggestedCombinations wd of None \<Rightarrow> [] | Some sgs \<Rightarrow> sgs),
      weightById = buildLookups (wd_weights wd)\<rparr>"

definition getWeight :: "calculator \<Rightarrow> int \<Rightarrow> weight option" where
  "getWeight c i = weightById c i"

definition getCombinedThickness :: "calculator \<Rightarrow> int list \<Rightarrow> real" where
  "getCombinedThickness c strandIds =
     fold (\<lambda>i totalThickness.
             case getWeight c i of
               Some w \<Rightarrow> totalThickness + thickness w
             | None \<Rightarrow> totalThickness)
          strandIds 0"

record combined =
  cw_weight :: weight
  exactThickness :: real
  cw_strandCount :: nat
  cw_strands :: "weight option list"

text \<open>
  The search loop of \<open>calculateCombinedWeight\<close>, from index 1 on: the pair is
  (\<open>closestWeight\<close>, \<open>minDifference\<close>), replaced only by a strictly smaller difference.
\<close>

fun closest_loop :: "real \<Rightarrow> weight list \<Rightarrow> weight \<times> real \<Rightarrow> weight \<times> real" where
  "closest_loop t [] acc = acc"
| "closest_loop t (w # ws) (closestWeight, minDifference) =
     (let difference = \<bar>t - thickness w\<bar>
      in if difference < minDifference
         then closest_loop t ws (w, difference)
         else closest_loop t ws (closestWeight, minDifference))"

text \<open>
  \<open>calculateCombinedWeight\<close>: \<open>Inr None\<close> is the \<open>null\<close> returned for an empty input;
  with an empty catalog \<open>this.weights[0]\<close> is \<open>undefined\<close> and reading its thickness
  throws a TypeError.
\<close>

definition calculateCombinedWeight :: "calculator \<Rightarrow> int list \<Rightarrow> error + combined option" where
  "calculateCombinedWeight c strandIds =
     (if strandIds = [] then Inr None
      else
        let combinedThickness = getCombinedThickness c strandIds
        in case weights c of
             [] \<Rightarrow> Inl TypeError
           | w0 # rest \<Rightarrow>
               let (closestWeight, minDifference) =
                     closest_loop combinedThickness rest (w0, \<bar>combinedThickness - thickness w0\<bar>)
               in Inr (Some \<lparr>cw_weight = closestWeight,
                              exactThickness = combinedThickness,
                              cw_strandCount = length strandIds,
                              cw_strands = map (getWeight c) strandIds\<rparr>))"

subsection \<open>Number arithmetic where the source divides\<close>

text \<open>
  \<open>Infinite\<close> stands for either infinity: no operation below subtracts or compares two
  infinities, so the sign is never read.
\<close>

fun num_div :: "number \<Rightarrow> number \<Rightarrow> number" where
  "num_div (Num a) (Num b) = (if b = 0 then (if a = 0 then NaN else Infinite) else Num (a / b))"
| "num_div (Num a) Infinite = Num 0"
| "num_div Infinite (Num b) = Infinite"
| "num_div Infinite Infinite = NaN"
| "num_div NaN _ = NaN"
| "num_div _ NaN = NaN"



text \<open>\<open>Math.round\<close>: the nearest integer, a tie going up.\<close>

fun Math_round :: "number \<Rightarrow> number" where
  "Math_round (Num x) = Num (of_int \<lfloor>x + 1 / 2\<rfloor>)"
| "Math_round Infinite = Infinite"
| "Math_round NaN = NaN"

subsection \<open>Wraps per inch\<close>





subsection \<open>Gauge and needle size\<close>

record gaugeEstimate =
  ge_stitches :: number
  ge_rows :: number
  ge_per :: string
  ge_note :: string

definition estimateCombinedGauge :: "calculator \<Rightarrow> int list \<Rightarrow> error + gaugeEstimate option" where
  "estimateCombinedGauge c strandIds =
     (case calculateCombinedWeight c strandIds of
        Inl e \<Rightarrow> Inl e
      | Inr None \<Rightarrow> Inr None
      | Inr (Some result) \<Rightarrow>
          let baseGauge = gauge (cw_weight result);
              combinedThickness = exactThickness result;
              standardThickness = thickness (cw_weight result);
              thicknessRatio = num_div (Num combinedThickness) (Num standardThickness)
          in Inr (Some
               \<lparr>ge_stitches = Math_round (num_div (Num (stitches baseGauge)) thicknessRatio),
                ge_rows = Math_round (num_div (Num (rows baseGauge)) thicknessRatio),
                ge_per = per baseGauge,
                ge_note = (if thicknessRatio \<noteq> Num 1
                        then ''Adjusted from standard '' @ name (cw_weight result) @ '' gauge''
                        else ''Standard '' @ name (cw_weight result) @ '' gauge'')\<rparr>))"

record needleRecommendation =
  nr_mm :: real
  nr_us :: string
  nr_weight :: string

definition getRecommendedNeedleSize ::
  "calculator \<Rightarrow> int list \<Rightarrow> error + needleRecommendation option" where
  "getRecommendedNeedleSize c strandIds =
     (case calculateCombinedWeight c strandIds of
        Inl e \<Rightarrow> Inl e
      | Inr None \<Rightarrow> Inr None
      | Inr (Some result) \<Rightarrow>
          Inr (Some \<lparr>nr_mm = mm (needleSize (cw_weight result)),
                     nr_us = us (needleSize (cw_weight result)),
                     nr_weight = name (cw_weight result)\<rparr>))"

subsection \<open>Suggested combinations\<close>

definition arraysEqual :: "int list \<Rightarrow> int list \<Rightarrow> bool" where
  "arraysEqual arr1 arr2 =
     (if length arr1 \<noteq> length arr2 then False
      else list_all (\<lambda>index. arr1 ! index = arr2 ! index) [0..<length arr1])"

datatype suggestionMatch = Match string "weight option" | NoMatch

fun matches :: "suggestionMatch \<Rightarrow> bool" where
  "matches (Match d r) = True"
| "matches NoMatch = False"

text \<open>
  The loop of \<open>matchesSuggestion\<close> over the suggestions, the input already sorted
  (\<open>sort((a, b) => a - b)\<close> is the ascending numeric order).
\<close>

fun suggestion_loop :: "calculator \<Rightarrow> int list \<Rightarrow> suggestion list \<Rightarrow> suggestionMatch" where
  "suggestion_loop c sortedInput [] = NoMatch"
| "suggestion_loop c sortedInput (sg # sgs) =
     (let sortedSuggestion = sort (sg_strands sg)
      in if arraysEqual sortedInput sortedSuggestion
         then Match (description sg) (getWeight c (sg_result sg))
         else suggestion_loop c sortedInput sgs)"

definition matchesSuggestion :: "calculator \<Rightarrow> int list \<Rightarrow> suggestionMatch" where
  "matchesSuggestion c strandIds =
     (let sortedInput = sort strandIds in suggestion_loop c sortedInput (suggestions c))"

subsection \<open>The report\<close>







section \<open>The swatch renderer (swatchRenderer.js)\<close>

subsection \<open>Colour parsing\<close>

record rgb =
  rgb_r :: int
  rgb_g :: int
  rgb_b :: int

text \<open>The class \<open>[a-f\d]\<close> under the flag \<open>i\<close>, and the value \<open>parseInt\<close> gives a digit in base 16.\<close>

definition hex_digit :: "char \<Rightarrow> bool" where
  "hex_digit ch = (ch \<in> set ''0123456789abcdefABCDEF'')"

definition digit_value :: "char \<Rightarrow> int" where
  "digit_value ch =
     (let n = (of_char ch :: nat) in
      if 48 \<le> n \<and> n \<le> 57 then int n - 48
      else if 97 \<le> n \<and> n \<le> 102 then int n - 87
      else int n - 55)"

text \<open>\<open>parseInt(s, 16)\<close> on a string of hexadecimal digits (the only strings it is given).\<close>

definition parseInt16 :: "string \<Rightarrow> int" where
  "parseInt16 s = fold (\<lambda>ch acc. acc * 16 + digit_value ch) s 0"

text \<open>
  The regular expression \<open>/^#?([a-f\d]{2})([a-f\d]{2})([a-f\d]{2})$/i\<close>: an optional
  \<open>#\<close>, then exactly six characters of the class up to the end of the input; the result
  is the three groups.
\<close>

definition hex_exec :: "string \<Rightarrow> (string \<times> string \<times> string) option" where
  "hex_exec hex =
     (let body = (case hex of [] \<Rightarrow> [] | ch # rest \<Rightarrow> if ch = CHR ''#'' then rest else hex)
      in case body of
           [c1, c2, c3, c4, c5, c6] \<Rightarrow>
             if list_all hex_digit body then Some ([c1, c2], [c3, c4], [c5, c6]) else None
         | _ \<Rightarrow> None)"

definition hexToRgb :: "string \<Rightarrow> rgb" where
  "hexToRgb hex =
     (case hex_exec hex of
        Some (g1, g2, g3) \<Rightarrow>
          \<lparr>rgb_r = parseInt16 g1, rgb_g = parseInt16 g2, rgb_b = parseInt16 g3\<rparr>
      | None \<Rightarrow> \<lparr>rgb_r = 128, rgb_g = 128, rgb_b = 128\<rparr>)"

subsection \<open>The texture canvas\<close>

text \<open>
  A canvas is the sequence of calls made on its 2D context, in order. A style is kept as
  the source builds it: the strand's colour string, or an \<open>rgb(...)\<close> or \<open>rgba(...)\<close>
  template with its components.
\<close>

datatype css = CssString string | CssRgb int int int | CssRgba int int int real

datatype ctx_call =
    FillStyle string
  | FillRect real real real real
  | LineCap string
  | LineJoin string
  | StrokeStyle css
  | LineWidth real
  | BeginPath
  | MoveTo real real
  | BezierCurveTo real real real real real real
  | Stroke

datatype wrapping = ClampToEdgeWrapping | RepeatWrapping

record texture =
  canvas_width :: nat
  canvas_height :: nat
  calls :: "ctx_call list"
  wrapS :: wrapping
  wrapT :: wrapping
  repeat :: "real \<times> real"

text \<open>\<open>new THREE.CanvasTexture(canvas)\<close>: clamped and not repeated until set otherwise.\<close>

definition CanvasTexture :: "nat \<Rightarrow> ctx_call list \<Rightarrow> texture" where
  "CanvasTexture sz cs =
     \<lparr>canvas_width = sz, canvas_height = sz, calls = cs,
      wrapS = ClampToEdgeWrapping, wrapT = ClampToEdgeWrapping, repeat = (1, 1)\<rparr>"

record strand =
  strand_color :: string

subsection \<open>The mesh\<close>

text \<open>
  The vertices of a Three.js \<open>PlaneGeometry\<close>, row by row from the top: vertex \<open>ix\<close> of
  row \<open>iy\<close> is at \<open>(ix * width / widthSegments - width / 2,
  - (iy * height / heightSegments - height / 2), 0)\<close>. The flat position array is kept
  as a list of triples.
\<close>

type_synonym vertex = "real \<times> real \<times> real"

record planeGeometry =
  widthSegments :: nat
  heightSegments :: nat
  positions :: "vertex list"

definition PlaneGeometry :: "real \<Rightarrow> real \<Rightarrow> nat \<Rightarrow> nat \<Rightarrow> planeGeometry" where
  "PlaneGeometry width height gridX gridY =
     \<lparr>widthSegments = gridX, heightSegments = gridY,
      positions =
        concat (map (\<lambda>iy. map (\<lambda>ix.
                  (real ix * (width / real gridX) - width / 2,
                   - (real iy * (height / real gridY) - height / 2),
                   0))
                [0..<gridX + 1]) [0..<gridY + 1])\<rparr>"

datatype materialColor = ColorHex nat | ColorRgbLerp int int int nat real

record material =
  mat_color :: materialColor
  mat_map :: "texture option"
  roughness :: real
  metalness :: real

record mesh =
  geometry :: planeGeometry
  material :: material
  rotation_x :: real

text \<open>
  The renderer. \<open>fabricGeometry\<close> is the geometry of \<open>fabricMesh\<close> (the same object), so
  it has no field of its own.
\<close>

record swatchRenderer =
  fabricMesh :: "mesh option"
  originalPositions :: "vertex list option"
  time :: real
  isAnimating :: bool
  sr_needleSize :: real
  yarnThickness :: real
  colors :: "string list"
  sr_strands :: "strand list"

subsection \<open>Drawing the stitches\<close>

definition drawAscendingLeg :: "real \<Rightarrow> real \<Rightarrow> real \<Rightarrow> real \<Rightarrow> real \<Rightarrow> ctx_call list" where
  "drawAscendingLeg x arcY bottomY stitchHeight direction =
     (let bulgeAmount = stitchHeight * 0.15 * direction in
      [BeginPath, MoveTo x bottomY,
       BezierCurveTo (x + bulgeAmount) (bottomY - stitchHeight * 0.3)
                     (x + bulgeAmount) (arcY + stitchHeight * 0.2)
                     x arcY,
       Stroke])"

definition drawArc :: "real \<Rightarrow> real \<Rightarrow> real \<Rightarrow> real \<Rightarrow> ctx_call list" where
  "drawArc centerX arcY arcWidth arcHeight =
     [BeginPath, MoveTo (centerX - arcWidth) arcY,
      BezierCurveTo (centerX - arcWidth) (arcY - arcHeight)
                    (centerX + arcWidth) (arcY - arcHeight)
                    (centerX + arcWidth) arcY,
      Stroke]"

definition drawConnection :: "real \<Rightarrow> real \<Rightarrow> real \<Rightarrow> real \<Rightarrow> ctx_call list" where
  "drawConnection leftX rightX y stitchHeight =
     (let sag = stitchHeight * 0.06 in
      [BeginPath, MoveTo leftX y,
       BezierCurveTo (leftX + (rightX - leftX) * 0.3) (y + sag)
                     (leftX + (rightX - leftX) * 0.7) (y + sag)
                     rightX y,
       Stroke])"

text \<open>\<open>rgb(${Math.floor(rgb.r * f)}, ${Math.floor(rgb.g * f)}, ${Math.floor(rgb.b * f)})\<close>.\<close>

definition shade :: "rgb \<Rightarrow> real \<Rightarrow> css" where
  "shade c f = CssRgb \<lfloor>real_of_int (rgb_r c) * f\<rfloor> \<lfloor>real_of_int (rgb_g c) * f\<rfloor>
                      \<lfloor>real_of_int (rgb_b c) * f\<rfloor>"

definition strand_offset :: "nat \<Rightarrow> nat \<Rightarrow> real \<Rightarrow> real" where
  "strand_offset s strandCount yarnWidth =
     (real s - (real strandCount - 1) / 2) * (yarnWidth * 0.1)"

definition drawColumnAscending ::
  "nat \<Rightarrow> nat \<Rightarrow> real \<Rightarrow> real \<Rightarrow> strand list \<Rightarrow> real \<Rightarrow> ctx_call list" where
  "drawColumnAscending col rws stitchWidth stitchHeight strands yarnWidth =
     (let centerX = real col * stitchWidth + stitchWidth / 2;
          legSpread = stitchWidth * 0.28;
          strandCount = length strands
      in concat (map (\<lambda>s.
           let c = hexToRgb (strand_color (strands ! s));
               offset = strand_offset s strandCount yarnWidth;
               plyWidth = yarnWidth / sqrt (real strandCount)
           in concat (map (\<lambda>row.
                let topY = real row * stitchHeight;
                    arcY = topY + stitchHeight * 0.15;
                    bottomY = topY + stitchHeight * 1.05
                in [StrokeStyle (shade c 0.5), LineWidth (plyWidth * 1.15)]
                   @ drawAscendingLeg (centerX - legSpread + offset + 1) (arcY + 1) (bottomY + 1)
                                      stitchHeight (- 1)
                   @ [StrokeStyle (shade c 0.8), LineWidth plyWidth]
                   @ drawAscendingLeg (centerX - legSpread + offset) arcY bottomY stitchHeight (- 1)
                   @ [StrokeStyle (shade c 0.5), LineWidth (plyWidth * 1.15)]
                   @ drawAscendingLeg (centerX + legSpread + offset + 1) (arcY + 1) (bottomY + 1)
                                      stitchHeight 1
                   @ [StrokeStyle (shade c 0.8), LineWidth plyWidth]
                   @ drawAscendingLeg (centerX + legSpread + offset) arcY bottomY stitchHeight 1)
              (rev [0..<rws])))
         [0..<strandCount]))"

definition drawColumnArcs ::
  "nat \<Rightarrow> nat \<Rightarrow> real \<Rightarrow> real \<Rightarrow> strand list \<Rightarrow> real \<Rightarrow> ctx_call list" where
  "drawColumnArcs col rws stitchWidth stitchHeight strands yarnWidth =
     (let centerX = real col * stitchWidth + stitchWidth / 2;
          legSpread = stitchWidth * 0.28;
          arcWidth = legSpread;
          strandCount = length strands
      in concat (map (\<lambda>s.
           let c = hexToRgb (strand_color (strands ! s));
               offset = strand_offset s strandCount yarnWidth;
               plyWidth = yarnWidth / sqrt (real strandCount)
           in concat (map (\<lambda>row.
                let topY = real row * stitchHeight;
                    arcY = topY + stitchHeight * 0.15;
                    arcHeight = stitchHeight * 0.18
                in [StrokeStyle (shade c 0.55), LineWidth (plyWidth * 1.15)]
                   @ drawArc (centerX + offset + 1) (arcY + 1) arcWidth arcHeight
                   @ [StrokeStyle (CssString (strand_color (strands ! s))), LineWidth plyWidth]
                   @ drawArc (centerX + offset) arcY arcWidth arcHeight
                   @ [StrokeStyle (CssRgba 255 255 255 0.3), LineWidth (plyWidth * 0.3)]
                   @ drawArc (centerX + offset - 0.4) (arcY - 0.4) arcWidth arcHeight)
              [0..<rws]))
         [0..<strandCount]))"

definition drawRowConnections ::
  "nat \<Rightarrow> nat \<Rightarrow> real \<Rightarrow> real \<Rightarrow> strand list \<Rightarrow> real \<Rightarrow> ctx_call list" where
  "drawRowConnections row cols stitchWidth stitchHeight strands yarnWidth =
     (let topY = real row * stitchHeight;
          arcY = topY + stitchHeight * 0.15;
          legSpread = stitchWidth * 0.28;
          strandCount = length strands
      in concat (map (\<lambda>s.
           let c = hexToRgb (strand_color (strands ! s));
               offset = strand_offset s strandCount yarnWidth;
               plyWidth = yarnWidth / sqrt (real strandCount)
           in concat (map (\<lambda>col.
                let leftX = real col * stitchWidth + stitchWidth / 2 + legSpread + offset;
                    rightX = (real col + 1) * stitchWidth + stitchWidth / 2 - legSpread + offset
                in [StrokeStyle (shade c 0.55), LineWidth (plyWidth * 1.15)]
                   @ drawConnection (leftX + 1) (rightX + 1) (arcY + 1) stitchHeight
                   @ [StrokeStyle (CssString (strand_color (strands ! s))), LineWidth plyWidth]
                   @ drawConnection leftX rightX arcY stitchHeight
                   @ [StrokeStyle (CssRgba 255 255 255 0.3), LineWidth (plyWidth * 0.3)]
                   @ drawConnection (leftX - 0.4) (rightX - 0.4) (arcY - 0.4) stitchHeight)
              [0..<cols - 1]))
         [0..<strandCount]))"

text \<open>
  \<open>createYarnTexture\<close> reads \<open>yarnThickness\<close> and \<open>needleSize\<close> of the renderer. With a
  stitch width of zero \<open>size / stitchWidth\<close> is infinite and the loops over the columns
  never end; a negative count of columns or rows runs no iteration.
\<close>

definition createYarnTexture :: "swatchRenderer \<Rightarrow> strand list \<Rightarrow> error + texture" where
  "createYarnTexture st strands =
     (let canvasSize = 512;
          background = [FillStyle ''#FFFFFF'', FillRect 0 0 (real canvasSize) (real canvasSize)]
      in if strands = [] then Inr (CanvasTexture canvasSize background)
         else
           let yarnWidth = 2.5 + yarnThickness st * 0.7;
               stitchWidth = 14 + sr_needleSize st * 2;
               stitchHeight = stitchWidth * 1.2
           in if stitchWidth = 0 then Inl NonTermination
              else
                let cols = nat (\<lceil>real canvasSize / stitchWidth\<rceil> + 2);
                    rws = nat (\<lceil>real canvasSize / stitchHeight\<rceil> + 2);
                    layer1 = concat (map (\<lambda>col. drawColumnAscending col rws stitchWidth
                                                   stitchHeight strands yarnWidth) [0..<cols]);
                    layer2 = concat (map (\<lambda>row. drawRowConnections row cols stitchWidth
                                                   stitchHeight strands yarnWidth) [0..<rws]);
                    layer3 = concat (map (\<lambda>col. drawColumnArcs col rws stitchWidth
                                                   stitchHeight strands yarnWidth) [0..<cols])
                in Inr ((CanvasTexture canvasSize
                          (background @ [LineCap ''round'', LineJoin ''round'']
                           @ layer1 @ layer2 @ layer3))
                        \<lparr>wrapS := RepeatWrapping, wrapT := RepeatWrapping, repeat := (1.5, 1.5)\<rparr>))"

subsection \<open>Placeholder and fabric\<close>

definition createPlaceholder :: "swatchRenderer \<Rightarrow> swatchRenderer" where
  "createPlaceholder st =
     (let geom = PlaneGeometry 3 3 32 32;
          mat = \<lparr>mat_color = ColorHex 0xdddddd, mat_map = None, roughness = 0.8, metalness = 0\<rparr>
      in st\<lparr>fabricMesh := Some \<lparr>geometry = geom, material = mat, rotation_x = 0\<rparr>,
             originalPositions := Some (positions geom)\<rparr>)"

text \<open>The sums of the strand colours in \<open>createFabric\<close>, and \<open>Math.round\<close> of their mean.\<close>

definition round_mean :: "int \<Rightarrow> nat \<Rightarrow> int" where
  "round_mean tot n = \<lfloor>real_of_int tot / real n + 1 / 2\<rfloor>"

definition average_color :: "strand list \<Rightarrow> int \<times> int \<times> int" where
  "average_color strands =
     (if strands = [] then (128, 128, 128)
      else
        let (avgR, avgG, avgB) =
              fold (\<lambda>s (ar, ag, ab).
                      let c = hexToRgb (strand_color s)
                      in (ar + rgb_r c, ag + rgb_g c, ab + rgb_b c))
                   strands (0, 0, 0)
        in (round_mean avgR (length strands), round_mean avgG (length strands),
            round_mean avgB (length strands)))"

definition createFabric :: "swatchRenderer \<Rightarrow> strand list \<Rightarrow> error + swatchRenderer" where
  "createFabric st strands =
     (let segments = 64;
          geom = PlaneGeometry 3.5 3.5 segments segments
      in case createYarnTexture st strands of
           Inl e \<Rightarrow> Inl e
         | Inr tex \<Rightarrow>
             let (avgR, avgG, avgB) = average_color strands;
                 mat = \<lparr>mat_color = ColorRgbLerp avgR avgG avgB 0xffffff 0.4,
                        mat_map = Some tex, roughness = 0.9, metalness = 0\<rparr>
             in Inr (st\<lparr>fabricMesh := Some \<lparr>geometry = geom, material = mat,
                                              rotation_x = - 0.2\<rparr>,
                        originalPositions := Some (positions geom)\<rparr>))"

subsection \<open>The animation\<close>

text \<open>
  The out-of-plane displacement \<open>animateFabric\<close> gives the vertex whose original place is
  \<open>(x, y)\<close>, and its \<open>edgeFactor\<close>.
\<close>

definition edgeFactor :: "real \<Rightarrow> real \<Rightarrow> real" where
  "edgeFactor x y = (1 - (\<bar>x\<bar> / 1.75) ^ 3) * (1 - (\<bar>y\<bar> / 1.75) ^ 3)"

definition displacement :: "real \<Rightarrow> real \<Rightarrow> real \<Rightarrow> real" where
  "displacement tm x y =
     (let wave1 = sin (x * 1.8 + tm * 0.6) * 0.18;
          wave2 = sin (y * 2.2 + tm * 0.9) * 0.14;
          wave3 = sin ((x + y) * 1.2 + tm * 0.4) * 0.1;
          wave4 = sin (x * 3.0 - tm * 1.1) * 0.06
      in (wave1 + wave2 + wave3 + wave4) * max 0 (edgeFactor x y))"

text \<open>
  \<open>animateFabric\<close> writes the third coordinate of every vertex from the first two of its
  original position. \<open>originalPositions\<close> is set together with \<open>fabricMesh\<close>, by a copy of
  the positions of the new geometry, so a mesh is never without them and the two arrays
  have the same length.
\<close>

definition animateFabric :: "swatchRenderer \<Rightarrow> swatchRenderer" where
  "animateFabric st =
     (case (fabricMesh st, originalPositions st) of
        (Some m, Some original) \<Rightarrow>
          let ps = positions (geometry m);
              ps' = map (\<lambda>i. case (ps ! i, original ! i) of
                                ((px, py, pz), (x, y, z)) \<Rightarrow> (px, py, displacement (time st) x y))
                        [0..<length ps]
          in st\<lparr>fabricMesh := Some (m\<lparr>geometry := (geometry m)\<lparr>positions := ps'\<rparr>\<rparr>)\<rparr>
      | _ \<Rightarrow> st)"

text \<open>One frame of the loop started by \<open>startAnimation\<close>.\<close>

definition animate :: "swatchRenderer \<Rightarrow> swatchRenderer" where
  "animate st = animateFabric (st\<lparr>time := time st + 0.016\<rparr>)"

definition startAnimation :: "swatchRenderer \<Rightarrow> swatchRenderer" where
  "startAnimation st = (if isAnimating st then st else animate (st\<lparr>isAnimating := True\<rparr>))"

text \<open>The constructor: the fields, the placeholder, the first frame.\<close>

definition initial_fields :: swatchRenderer where
  "initial_fields =
     \<lparr>fabricMesh = None, originalPositions = None, time = 0, isAnimating = False,
      sr_needleSize = 4.0, yarnThickness = 4, colors = [''#555555''], sr_strands = []\<rparr>"

definition SwatchRenderer :: swatchRenderer where
  "SwatchRenderer = startAnimation (createPlaceholder initial_fields)"

text \<open>\<open>render\<close>: \<open>combinedThickness || 4\<close> replaces a zero thickness by 4.\<close>

definition render :: "swatchRenderer \<Rightarrow> strand list \<Rightarrow> real \<Rightarrow> error + swatchRenderer" where
  "render st strands combinedThickness =
     (let st1 = st\<lparr>sr_strands := strands,
                   yarnThickness := (if combinedThickness = 0 then 4 else combinedThickness),
                   colors := map strand_color strands\<rparr>
      in if length (sr_strands st1) = 0 then Inr (createPlaceholder st1)
         else createFabric st1 (sr_strands st1))"

definition clear :: "swatchRenderer \<Rightarrow> swatchRenderer" where
  "clear st = createPlaceholder st"

subsection \<open>Notions used to state the properties\<close>

text \<open>The thickness an id contributes to the sum: that of its category, nothing when unknown.\<close>

definition known_thickness :: "calculator \<Rightarrow> int \<Rightarrow> real" where
  "known_thickness c i = (case getWeight c i of Some w \<Rightarrow> thickness w | None \<Rightarrow> 0)"

text \<open>
  Entry \<open>k\<close> of the catalog is nearest to \<open>t\<close>, and the first such entry: no entry is
  nearer and every earlier entry is strictly farther.
\<close>

definition first_nearest :: "real \<Rightarrow> weight list \<Rightarrow> nat \<Rightarrow> bool" where
  "first_nearest t ws k \<longleftrightarrow>
     k < length ws \<and>
     (\<forall>w \<in> set ws. \<bar>t - thickness (ws ! k)\<bar> \<le> \<bar>t - thickness w\<bar>) \<and>
     (\<forall>w \<in> set (take k ws). \<bar>t - thickness (ws ! k)\<bar> < \<bar>t - thickness w\<bar>)"



text \<open>
  The colour of a canvas that was painted by one fill of its whole area and nothing
  else.
\<close>

definition fill_color :: "texture \<Rightarrow> string option" where
  "fill_color tex =
     (case calls tex of
        [FillStyle col, FillRect x y w h] \<Rightarrow>
          if x = 0 \<and> y = 0 \<and> w = real (canvas_width tex) \<and> h = real (canvas_height tex)
          then Some col else None
      | _ \<Rightarrow> None)"

text \<open>A gray: the three channels equal, strictly between black and white.\<close>

definition neutral_gray :: "rgb \<Rightarrow> bool" where
  "neutral_gray c \<longleftrightarrow> rgb_r c = rgb_g c \<and> rgb_g c = rgb_b c \<and> 0 < rgb_r c \<and> rgb_r c < 255"

text \<open>
  Vertex \<open>k\<close> of a plane of \<open>gridX\<close> by \<open>gridY\<close> segments lies on its outer boundary: it is
  in the first or last column, or in the first or last row.
\<close>

definition boundary_index :: "nat \<Rightarrow> nat \<Rightarrow> nat \<Rightarrow> bool" where
  "boundary_index gridX gridY k \<longleftrightarrow>
     k < (gridX + 1) * (gridY + 1) \<and>
     (k mod (gridX + 1) = 0 \<or> k mod (gridX + 1) = gridX \<or>
      k div (gridX + 1) = 0 \<or> k div (gridX + 1) = gridY)"

text \<open>The out-of-plane coordinate of vertex \<open>k\<close> of the current mesh.\<close>

definition out_of_plane :: "swatchRenderer \<Rightarrow> nat \<Rightarrow> real option" where
  "out_of_plane st k =
     (case fabricMesh st of
        None \<Rightarrow> None
      | Some m \<Rightarrow>
          if k < length (positions (geometry m))
          then Some (snd (snd (positions (geometry m) ! k))) else None)"

text \<open>
  The renderer animates a square plane of side \<open>w\<close> and \<open>n\<close> by \<open>n\<close> segments: the original
  positions are those of the plane, and the mesh has as many vertices.
\<close>

definition animates_plane :: "swatchRenderer \<Rightarrow> real \<Rightarrow> nat \<Rightarrow> bool" where
  "animates_plane st w n \<longleftrightarrow>
     originalPositions st = Some (positions (PlaneGeometry w w n n)) \<and>
     (case fabricMesh st of
        None \<Rightarrow> False
      | Some m \<Rightarrow> length (positions (geometry m)) = (n + 1) * (n + 1))"

subsection \<open>A catalog to evaluate on\<close>

definition lace :: weight where
  "lace = \<lparr>weight_id = 0, name = ''Lace'', thickness = 1, wpi = 18,
           gauge = \<lparr>stitches = 32, rows = 40, per = ''4 inches''\<rparr>,
           needleSize = \<lparr>mm = 2.25, us = ''1''\<rparr>,
           visual = \<lparr>color = ''#f0e6d2'', twist = 0.5\<rparr>\<rparr>"

definition worsted :: weight where
  "worsted = \<lparr>weight_id = 4, name = ''Worsted'', thickness = 4, wpi = 9,
              gauge = \<lparr>stitches = 18, rows = 24, per = ''4 inches''\<rparr>,
              needleSize = \<lparr>mm = 4.5, us = ''7''\<rparr>,
              visual = \<lparr>color = ''#c9a27a'', twist = 1\<rparr>\<rparr>"

definition bulky :: weight where
  "bulky = \<lparr>weight_id = 5, name = ''Bulky'', thickness = 8, wpi = 6,
            gauge = \<lparr>stitches = 13, rows = 18, per = ''4 inches''\<rparr>,
            needleSize = \<lparr>mm = 6.5, us = ''10.5''\<rparr>,
            visual = \<lparr>color = ''#8a6d4b'', twist = 1.5\<rparr>\<rparr>"

definition catalog_data :: weightsData where
  "catalog_data =
     \<lparr>wd_weights = [lace, worsted, bulky],
      suggestedCombinations =
        Some [\<lparr>sg_strands = [4, 4], sg_result = 5, description = ''Two worsted held together''\<rparr>,
              \<lparr>sg_strands = [0, 4], sg_result = 4, description = ''Lace with worsted''\<rparr>]\<rparr>"

definition catalog :: calculator where
  "catalog = YarnWeightCalculator catalog_data"

section \<open>Properties of the lookup and of the thickness sum\<close>

lemma buildLookups_snoc:
  "buildLookups (ws @ [w]) = (buildLookups ws)(weight_id w \<mapsto> w)"
  by (simp add: buildLookups_def)


lemma buildLookups_None:
  "buildLookups ws i = None \<longleftrightarrow> i \<notin> weight_id ` set ws"
proof (induction ws rule: rev_induct)
  case Nil
  then show ?case by (simp add: buildLookups_def)
next
  case (snoc x xs)
  then show ?case
    by (auto simp: buildLookups_snoc)
qed

lemma fold_thickness_acc:
  "fold (\<lambda>i tot. case getWeight c i of Some w \<Rightarrow> tot + thickness w | None \<Rightarrow> tot) ids a
   = a + sum_list (map (known_thickness c) ids)"
  by (induction ids arbitrary: a) (auto simp: known_thickness_def split: option.splits)

lemma getCombinedThickness_sum:
  "getCombinedThickness c ids = sum_list (map (known_thickness c) ids)"
  by (simp add: getCombinedThickness_def fold_thickness_acc)


section \<open>The nearest category\<close>

lemma first_nearest_snoc_new:
  assumes "first_nearest t pre k" "\<bar>t - thickness w\<bar> < \<bar>t - thickness (pre ! k)\<bar>"
  shows "first_nearest t (pre @ [w]) (length pre)"
  using assms by (fastforce simp: first_nearest_def)

lemma first_nearest_snoc_keep:
  assumes "first_nearest t pre k" "\<not> \<bar>t - thickness w\<bar> < \<bar>t - thickness (pre ! k)\<bar>"
  shows "first_nearest t (pre @ [w]) k"
  using assms by (auto simp: first_nearest_def nth_append)

lemma closest_loop_first_nearest:
  assumes "first_nearest t pre k"
  shows "\<exists>k'. first_nearest t (pre @ ws) k' \<and>
           closest_loop t ws (pre ! k, \<bar>t - thickness (pre ! k)\<bar>)
           = ((pre @ ws) ! k', \<bar>t - thickness ((pre @ ws) ! k')\<bar>)"
  using assms
proof (induction ws arbitrary: pre k)
  case Nil
  then show ?case by auto
next
  case (Cons w ws)
  show ?case
  proof (cases "\<bar>t - thickness w\<bar> < \<bar>t - thickness (pre ! k)\<bar>")
    case True
    from first_nearest_snoc_new[OF Cons.prems True]
    have fn: "first_nearest t (pre @ [w]) (length pre)" .
    from Cons.IH[OF fn] True show ?thesis by simp
  next
    case False
    from first_nearest_snoc_keep[OF Cons.prems False]
    have fn: "first_nearest t (pre @ [w]) k" .
    have "k < length pre" using Cons.prems by (simp add: first_nearest_def)
    with Cons.IH[OF fn] False show ?thesis by (simp add: nth_append)
  qed
qed

lemma first_nearest_single: "first_nearest t [w] 0"
  by (simp add: first_nearest_def)

lemma first_nearest_unique:
  assumes "first_nearest t ws k" "first_nearest t ws k'"
  shows "k = k'"
proof (rule ccontr)
  assume ne: "k \<noteq> k'"
  have *: "\<And>a b. first_nearest t ws a \<Longrightarrow> first_nearest t ws b \<Longrightarrow> a < b \<Longrightarrow> False"
  proof -
    fix a b assume a: "first_nearest t ws a" and b: "first_nearest t ws b" and lt: "a < b"
    have "ws ! a \<in> set (take b ws)"
      using a b lt by (auto simp: first_nearest_def in_set_conv_nth intro!: exI[of _ a])
    then have "\<bar>t - thickness (ws ! b)\<bar> < \<bar>t - thickness (ws ! a)\<bar>"
      using b by (simp add: first_nearest_def)
    moreover have "ws ! b \<in> set ws" using b by (simp add: first_nearest_def)
    then have "\<bar>t - thickness (ws ! a)\<bar> \<le> \<bar>t - thickness (ws ! b)\<bar>"
      using a by (simp add: first_nearest_def)
    ultimately show False by simp
  qed
  from ne consider "k < k'" | "k' < k" by linarith
  then show False using * assms by cases blast+
qed

lemma calculateCombinedWeight_nearest:
  assumes "ids \<noteq> []" "weights c \<noteq> []"
  shows "\<exists>k. first_nearest (getCombinedThickness c ids) (weights c) k \<and>
           calculateCombinedWeight c ids =
             Inr (Some \<lparr>cw_weight = weights c ! k,
                        exactThickness = getCombinedThickness c ids,
                        cw_strandCount = length ids,
                        cw_strands = map (getWeight c) ids\<rparr>)"
proof -
  from assms(2) obtain w0 rest where ws: "weights c = w0 # rest"
    by (cases "weights c") auto
  have "first_nearest (getCombinedThickness c ids) [w0] 0" by (rule first_nearest_single)
  from closest_loop_first_nearest[OF this, of rest]
  obtain k where k: "first_nearest (getCombinedThickness c ids) (w0 # rest) k"
    and cl: "closest_loop (getCombinedThickness c ids) rest
               (w0, \<bar>getCombinedThickness c ids - thickness w0\<bar>)
             = ((w0 # rest) ! k, \<bar>getCombinedThickness c ids - thickness ((w0 # rest) ! k)\<bar>)"
    by auto
  show ?thesis
    using assms(1) k cl by (auto simp: calculateCombinedWeight_def ws Let_def)
qed

section \<open>The constructed calculator\<close>

lemma getWeight_constructed:
  "getWeight (YarnWeightCalculator wd) i = buildLookups (wd_weights wd) i"
  by (simp add: getWeight_def YarnWeightCalculator_def)

lemma weights_constructed: "weights (YarnWeightCalculator wd) = wd_weights wd"
  by (simp add: YarnWeightCalculator_def)



section \<open>C6: the empty input\<close>



section \<open>C2: the exact thickness is the sum of the cataloged thicknesses\<close>



section \<open>C1: the nearest category\<close>



section \<open>C10: ids outside the catalog\<close>

text \<open>
  C10. \<open>getCombinedThickness\<close> skips every id that references no catalog entry: the sum
  is that of the sequence with those ids removed. So a non-empty sequence of unknown ids
  only has the exact thickness 0, and \<open>calculateCombinedWeight\<close> returns for it a combined
  result, not an error, whose category is the first catalog entry nearest to thickness 0.
\<close>

theorem C10_unknown_ids_skipped:
  assumes "c = YarnWeightCalculator wd"
  shows "getCombinedThickness c strandIds
         = getCombinedThickness c (filter (\<lambda>i. i \<in> weight_id ` set (wd_weights wd)) strandIds) \<and>
         (strandIds \<noteq> [] \<and> wd_weights wd \<noteq> [] \<and>
          (\<forall>i \<in> set strandIds. i \<notin> weight_id ` set (wd_weights wd)) \<longrightarrow>
            getCombinedThickness c strandIds = 0 \<and>
            (\<exists>r k. calculateCombinedWeight c strandIds = Inr (Some r) \<and>
                   exactThickness r = 0 \<and> cw_weight r = wd_weights wd ! k \<and>
                   first_nearest 0 (wd_weights wd) k \<and>
                   cw_strands r = map (\<lambda>i. None) strandIds))"
proof (intro conjI impI)
  have kt: "known_thickness c i = 0" if "i \<notin> weight_id ` set (wd_weights wd)" for i
    using that by (simp add: known_thickness_def assms getWeight_constructed
        buildLookups_None[THEN iffD2])
  show "getCombinedThickness c strandIds
         = getCombinedThickness c (filter (\<lambda>i. i \<in> weight_id ` set (wd_weights wd)) strandIds)"
    unfolding getCombinedThickness_sum
    by (induction strandIds) (auto simp: kt)
  assume h: "strandIds \<noteq> [] \<and> wd_weights wd \<noteq> [] \<and>
          (\<forall>i \<in> set strandIds. i \<notin> weight_id ` set (wd_weights wd))"
  then have "\<forall>i \<in> set strandIds. known_thickness c i = 0" using kt by blast
  then have "sum_list (map (known_thickness c) strandIds) = 0"
    by (induction strandIds) auto
  then show z: "getCombinedThickness c strandIds = 0"
    by (simp add: getCombinedThickness_sum)
  have none: "map (getWeight c) strandIds = map (\<lambda>i. None) strandIds"
    using h by (auto simp: assms getWeight_constructed buildLookups_None)
  have wc: "weights c = wd_weights wd" by (simp add: assms weights_constructed)
  from h have "strandIds \<noteq> []" "weights c \<noteq> []" by (simp_all add: wc)
  from calculateCombinedWeight_nearest[OF this]
  show "\<exists>r k. calculateCombinedWeight c strandIds = Inr (Some r) \<and>
                   exactThickness r = 0 \<and> cw_weight r = wd_weights wd ! k \<and>
                   first_nearest 0 (wd_weights wd) k \<and>
                   cw_strands r = map (\<lambda>i. None) strandIds"
    unfolding z none wc by auto
qed

theorem C10_unknown_ids_skipped_witness:
  "[7, 9] \<noteq> ([] :: int list) \<and> wd_weights catalog_data \<noteq> [] \<and>
   7 \<notin> weight_id ` set (wd_weights catalog_data) \<and>
   9 \<notin> weight_id ` set (wd_weights catalog_data) \<and>
   getCombinedThickness catalog [7, 4, 9] = getCombinedThickness catalog [4] \<and>
   getCombinedThickness catalog [7, 9] = 0 \<and>
   (\<exists>r k. calculateCombinedWeight catalog [7, 9] = Inr (Some r) \<and>
          exactThickness r = 0 \<and> cw_weight r = wd_weights catalog_data ! k \<and>
          cw_strands r = [None, None])"
proof -
  have h: "[7, 9] \<noteq> ([] :: int list) \<and> wd_weights catalog_data \<noteq> [] \<and>
     (\<forall>i \<in> set [7, 9]. i \<notin> weight_id ` set (wd_weights catalog_data))"
    by (simp add: catalog_data_def lace_def worsted_def bulky_def)
  have f: "filter (\<lambda>i. i \<in> weight_id ` set (wd_weights catalog_data)) [7, 4, 9] = [4]"
    by (simp add: catalog_data_def lace_def worsted_def bulky_def)
  from C10_unknown_ids_skipped[OF catalog_def, of "[7, 4, 9]"]
  have "getCombinedThickness catalog [7, 4, 9] = getCombinedThickness catalog [4]"
    unfolding f by (rule conjunct1)
  moreover from C10_unknown_ids_skipped[OF catalog_def, of "[7, 9]"] h
  have "getCombinedThickness catalog [7, 9] = 0 \<and>
    (\<exists>r k. calculateCombinedWeight catalog [7, 9] = Inr (Some r) \<and>
          exactThickness r = 0 \<and> cw_weight r = wd_weights catalog_data ! k \<and>
          first_nearest 0 (wd_weights catalog_data) k \<and>
          cw_strands r = [None, None])"
    by simp
  then have "getCombinedThickness catalog [7, 9] = 0 \<and>
    (\<exists>r k. calculateCombinedWeight catalog [7, 9] = Inr (Some r) \<and>
          exactThickness r = 0 \<and> cw_weight r = wd_weights catalog_data ! k \<and>
          cw_strands r = [None, None])"
    by blast
  ultimately show ?thesis using h by simp
qed

section \<open>C5: suggested combinations\<close>

lemma arraysEqual_iff: "arraysEqual xs ys \<longleftrightarrow> xs = ys"
  unfolding arraysEqual_def list_all_iff
  by (auto intro: nth_equalityI)

lemma sort_eq_iff_mset: "sort xs = sort ys \<longleftrightarrow> mset xs = mset (ys :: int list)"
proof
  assume "sort xs = sort ys"
  then have "mset (sort xs) = mset (sort ys)" by simp
  then show "mset xs = mset ys" by simp
next
  assume "mset xs = mset ys"
  then have "mset (sort ys) = mset xs" by simp
  then show "sort xs = sort ys"
    by (rule properties_for_sort) simp
qed

lemma suggestion_loop_Match:
  "suggestion_loop c (sort ids) sgs = Match d r \<Longrightarrow>
     \<exists>sg \<in> set sgs. mset ids = mset (sg_strands sg) \<and> d = description sg \<and>
                   r = getWeight c (sg_result sg)"
  by (induction sgs) (auto simp: arraysEqual_iff sort_eq_iff_mset Let_def split: if_splits)

lemma suggestion_loop_matches:
  "matches (suggestion_loop c (sort ids) sgs) \<longleftrightarrow>
     (\<exists>sg \<in> set sgs. mset ids = mset (sg_strands sg))"
  by (induction sgs) (auto simp: arraysEqual_iff sort_eq_iff_mset Let_def)

text \<open>
  C5. \<open>matchesSuggestion\<close> reports a match exactly when the multiset of the input ids
  equals the multiset of ids of some cataloged suggestion; the answer does not depend on
  the order of the input. A suggestion of which the input is a strict sub-multiset or a
  strict super-multiset is not matched by it, and an input in that relation to every
  suggestion matches nothing.
\<close>

theorem C5_matches_suggestion:
  "(matches (matchesSuggestion c strandIds) \<longleftrightarrow>
      (\<exists>sg \<in> set (suggestions c). mset strandIds = mset (sg_strands sg))) \<and>
   (mset ids' = mset strandIds \<longrightarrow> matchesSuggestion c ids' = matchesSuggestion c strandIds) \<and>
   (\<forall>sg \<in> set (suggestions c).
      mset strandIds \<subset># mset (sg_strands sg) \<or> mset (sg_strands sg) \<subset># mset strandIds \<longrightarrow>
      \<not> arraysEqual (sort strandIds) (sort (sg_strands sg))) \<and>
   ((\<forall>sg \<in> set (suggestions c).
      mset strandIds \<subset># mset (sg_strands sg) \<or> mset (sg_strands sg) \<subset># mset strandIds) \<longrightarrow>
    matchesSuggestion c strandIds = NoMatch)"
proof (intro conjI impI ballI)
  show m: "matches (matchesSuggestion c strandIds) \<longleftrightarrow>
      (\<exists>sg \<in> set (suggestions c). mset strandIds = mset (sg_strands sg))"
    by (simp add: matchesSuggestion_def suggestion_loop_matches)
  show "matchesSuggestion c ids' = matchesSuggestion c strandIds"
    if "mset ids' = mset strandIds"
  proof -
    from that have "sort ids' = sort strandIds" by (simp add: sort_eq_iff_mset)
    then show ?thesis by (simp add: matchesSuggestion_def)
  qed
  show "\<not> arraysEqual (sort strandIds) (sort (sg_strands sg))"
    if "sg \<in> set (suggestions c)"
      "mset strandIds \<subset># mset (sg_strands sg) \<or> mset (sg_strands sg) \<subset># mset strandIds"
    for sg
    using that(2) by (auto simp: arraysEqual_iff sort_eq_iff_mset)
  show "matchesSuggestion c strandIds = NoMatch"
    if "\<forall>sg \<in> set (suggestions c).
      mset strandIds \<subset># mset (sg_strands sg) \<or> mset (sg_strands sg) \<subset># mset strandIds"
  proof -
    from that have "\<not> (\<exists>sg \<in> set (suggestions c). mset strandIds = mset (sg_strands sg))"
      by auto
    with m have "\<not> matches (matchesSuggestion c strandIds)" by simp
    then show ?thesis by (cases "matchesSuggestion c strandIds") simp_all
  qed
qed

lemma suggestions_catalog:
  "suggestions catalog =
     [\<lparr>sg_strands = [4, 4], sg_result = 5, description = ''Two worsted held together''\<rparr>,
      \<lparr>sg_strands = [0, 4], sg_result = 4, description = ''Lace with worsted''\<rparr>]"
  by (simp add: catalog_def catalog_data_def YarnWeightCalculator_def)

theorem C5_matches_suggestion_witness:
  "matches (matchesSuggestion catalog [4, 0]) \<and>
   matchesSuggestion catalog [0, 4] = matchesSuggestion catalog [4, 0] \<and>
   \<not> arraysEqual (sort [4]) (sort [4, 4]) \<and>
   \<not> arraysEqual (sort [4, 0, 4]) (sort [0, 4]) \<and>
   matchesSuggestion catalog [4, 0, 4] = NoMatch"
proof -
  let ?s1 = "\<lparr>sg_strands = [4, 4], sg_result = 5, description = ''Two worsted held together''\<rparr>"
  let ?s2 = "\<lparr>sg_strands = [0, 4], sg_result = 4, description = ''Lace with worsted''\<rparr>"
  have s1: "?s1 \<in> set (suggestions catalog)" and s2: "?s2 \<in> set (suggestions catalog)"
    by (simp_all add: suggestions_catalog)
  have "mset [4, 0] = mset (sg_strands ?s2)" by simp
  with s2 have a: "\<exists>sg \<in> set (suggestions catalog). mset [4, 0] = mset (sg_strands sg)" ..
  have b: "mset [0, 4] = mset [4, 0 :: int]" by simp
  have c: "mset [4] \<subset># mset (sg_strands ?s1) \<or> mset (sg_strands ?s1) \<subset># mset [4]"
    by simp
  have d: "mset [4, 0, 4] \<subset># mset (sg_strands ?s2) \<or> mset (sg_strands ?s2) \<subset># mset [4, 0, 4]"
    by (simp add: subset_mset_def)
  have d1: "mset [4, 0, 4] \<subset># mset (sg_strands ?s1) \<or> mset (sg_strands ?s1) \<subset># mset [4, 0, 4]"
    by (simp add: subset_mset_def)
  have e: "\<forall>sg \<in> set (suggestions catalog).
      mset [4, 0, 4] \<subset># mset (sg_strands sg) \<or> mset (sg_strands sg) \<subset># mset [4, 0, 4]"
    unfolding suggestions_catalog using d d1 by simp
  note C5a = C5_matches_suggestion[of catalog "[4, 0]" "[0, 4]"]
  note C5b = C5_matches_suggestion[of catalog "[4]" "[]"]
  note C5c = C5_matches_suggestion[of catalog "[4, 0, 4]" "[]"]
  have 1: "matches (matchesSuggestion catalog [4, 0])"
    using C5a[THEN conjunct1] a by (rule iffD2)
  have 2: "matchesSuggestion catalog [0, 4] = matchesSuggestion catalog [4, 0]"
    using C5a[THEN conjunct2, THEN conjunct1] b by (rule mp)
  have 3: "\<not> arraysEqual (sort [4]) (sort [4, 4])"
    using C5b[THEN conjunct2, THEN conjunct2, THEN conjunct1, rule_format, OF s1 c] by simp
  have 4: "\<not> arraysEqual (sort [4, 0, 4]) (sort [0, 4])"
    using C5c[THEN conjunct2, THEN conjunct2, THEN conjunct1, rule_format, OF s2 d] by simp
  have 5: "matchesSuggestion catalog [4, 0, 4] = NoMatch"
    using C5c[THEN conjunct2, THEN conjunct2, THEN conjunct2] e by (rule mp)
  from 1 2 3 4 5 show ?thesis by (intro conjI)
qed

section \<open>C4: gauge and needle\<close>





lemma gauge_of_worsted_and_lace:
  "estimateCombinedGauge catalog [4, 0] =
     Inr (Some \<lparr>ge_stitches = Num 14, ge_rows = Num 19, ge_per = ''4 inches'',
                ge_note = ''Adjusted from standard Worsted gauge''\<rparr>)"
  "getRecommendedNeedleSize catalog [4, 0] =
     Inr (Some \<lparr>nr_mm = 4.5, nr_us = ''7'', nr_weight = ''Worsted''\<rparr>)"
  by (simp_all add: estimateCombinedGauge_def getRecommendedNeedleSize_def
      calculateCombinedWeight_def getCombinedThickness_def catalog_def catalog_data_def
      getWeight_constructed weights_constructed buildLookups_def lace_def worsted_def bulky_def)

section \<open>C9: colour parsing\<close>

lemma digit_values:
  "map digit_value ''0123456789abcdefABCDEF'' =
     [0, 1, 2, 3, 4, 5, 6, 7, 8, 9, 10, 11, 12, 13, 14, 15, 10, 11, 12, 13, 14, 15]"
  by (simp add: digit_value_def)

lemma digit_value_range: "hex_digit ch \<Longrightarrow> 0 \<le> digit_value ch \<and> digit_value ch \<le> 15"
  by (auto simp: hex_digit_def digit_value_def)

lemma hash_not_hex: "\<not> hex_digit CHR ''#''"
  by (simp add: hex_digit_def)

lemma parseInt16_pair: "parseInt16 [c1, c2] = 16 * digit_value c1 + digit_value c2"
  by (simp add: parseInt16_def)

lemma hex_exec_plain:
  assumes "list_all hex_digit [c1, c2, c3, c4, c5, c6]"
  shows "hex_exec [c1, c2, c3, c4, c5, c6] = Some ([c1, c2], [c3, c4], [c5, c6])"
proof -
  from assms have "c1 \<noteq> CHR ''#''" using hash_not_hex by auto
  with assms show ?thesis by (simp add: hex_exec_def)
qed

lemma hex_exec_hash:
  assumes "list_all hex_digit [c1, c2, c3, c4, c5, c6]"
  shows "hex_exec (CHR ''#'' # [c1, c2, c3, c4, c5, c6]) = Some ([c1, c2], [c3, c4], [c5, c6])"
  using assms by (simp add: hex_exec_def)

lemma hex_exec_Some:
  assumes "hex_exec s = Some g"
  shows "\<exists>ds. length ds = 6 \<and> list_all hex_digit ds \<and> (s = ds \<or> s = CHR ''#'' # ds)"
proof -
  define body where "body = (case s of [] \<Rightarrow> [] | ch # rest \<Rightarrow> if ch = CHR ''#'' then rest else s)"
  from assms have "length body = 6 \<and> list_all hex_digit body"
    unfolding hex_exec_def body_def[symmetric] Let_def
    by (auto split: list.splits if_splits)
  moreover have "s = body \<or> s = CHR ''#'' # body"
    by (auto simp: body_def split: list.splits)
  ultimately show ?thesis by blast
qed

text \<open>
  C9. A string of six hexadecimal digits, with or without a leading \<open>#\<close>, parses to its
  RGB triple (each channel is sixteen times the value of its first digit plus the value
  of its second); every other string, \<open>notahex\<close> among them, gives the mid-gray triple
  (128, 128, 128) and no error. The last conjunct fixes the value of each digit.
\<close>

theorem C9_hex_to_rgb:
  "(list_all hex_digit [c1, c2, c3, c4, c5, c6] \<longrightarrow>
      hexToRgb [c1, c2, c3, c4, c5, c6] =
        \<lparr>rgb_r = 16 * digit_value c1 + digit_value c2,
         rgb_g = 16 * digit_value c3 + digit_value c4,
         rgb_b = 16 * digit_value c5 + digit_value c6\<rparr> \<and>
      hexToRgb (CHR ''#'' # [c1, c2, c3, c4, c5, c6]) = hexToRgb [c1, c2, c3, c4, c5, c6]) \<and>
   (\<not> (\<exists>ds. length ds = 6 \<and> list_all hex_digit ds \<and> (s = ds \<or> s = CHR ''#'' # ds)) \<longrightarrow>
      hexToRgb s = \<lparr>rgb_r = 128, rgb_g = 128, rgb_b = 128\<rparr>) \<and>
   hexToRgb ''notahex'' = \<lparr>rgb_r = 128, rgb_g = 128, rgb_b = 128\<rparr> \<and>
   map digit_value ''0123456789abcdefABCDEF'' =
     [0, 1, 2, 3, 4, 5, 6, 7, 8, 9, 10, 11, 12, 13, 14, 15, 10, 11, 12, 13, 14, 15]"
proof (intro conjI impI)
  assume h: "list_all hex_digit [c1, c2, c3, c4, c5, c6]"
  show p: "hexToRgb [c1, c2, c3, c4, c5, c6] =
        \<lparr>rgb_r = 16 * digit_value c1 + digit_value c2,
         rgb_g = 16 * digit_value c3 + digit_value c4,
         rgb_b = 16 * digit_value c5 + digit_value c6\<rparr>"
    by (simp add: hexToRgb_def hex_exec_plain[OF h] parseInt16_pair)
  show "hexToRgb (CHR ''#'' # [c1, c2, c3, c4, c5, c6]) = hexToRgb [c1, c2, c3, c4, c5, c6]"
    by (simp add: hexToRgb_def hex_exec_plain[OF h] hex_exec_hash[OF h])
next
  assume "\<not> (\<exists>ds. length ds = 6 \<and> list_all hex_digit ds \<and> (s = ds \<or> s = CHR ''#'' # ds))"
  with hex_exec_Some[of s] have "hex_exec s = None"
    by (cases "hex_exec s") auto
  then show "hexToRgb s = \<lparr>rgb_r = 128, rgb_g = 128, rgb_b = 128\<rparr>"
    by (simp add: hexToRgb_def)
next
  show "hexToRgb ''notahex'' = \<lparr>rgb_r = 128, rgb_g = 128, rgb_b = 128\<rparr>"
    by (simp add: hexToRgb_def hex_exec_def hex_digit_def)
  show "map digit_value ''0123456789abcdefABCDEF'' =
     [0, 1, 2, 3, 4, 5, 6, 7, 8, 9, 10, 11, 12, 13, 14, 15, 10, 11, 12, 13, 14, 15]"
    by (rule digit_values)
qed

theorem C9_hex_to_rgb_witness:
  "hexToRgb ''ff8000'' = \<lparr>rgb_r = 255, rgb_g = 128, rgb_b = 0\<rparr> \<and>
   hexToRgb ''#ff8000'' = \<lparr>rgb_r = 255, rgb_g = 128, rgb_b = 0\<rparr> \<and>
   hexToRgb ''#ff80'' = \<lparr>rgb_r = 128, rgb_g = 128, rgb_b = 128\<rparr>"
proof -
  have h: "list_all hex_digit ''ff8000''" by (simp add: hex_digit_def)
  have n: "\<not> (\<exists>ds. length ds = 6 \<and> list_all hex_digit ds \<and>
                (''#ff80'' = ds \<or> ''#ff80'' = CHR ''#'' # ds))"
    by (auto simp: hex_digit_def)
  note C9 = C9_hex_to_rgb[of "CHR ''f''" "CHR ''f''" "CHR ''8''" "CHR ''0''" "CHR ''0''"
      "CHR ''0''" "''#ff80''"]
  from C9 h have "hexToRgb ''ff8000'' =
        \<lparr>rgb_r = 16 * digit_value CHR ''f'' + digit_value CHR ''f'',
         rgb_g = 16 * digit_value CHR ''8'' + digit_value CHR ''0'',
         rgb_b = 16 * digit_value CHR ''0'' + digit_value CHR ''0''\<rparr>"
    and 2: "hexToRgb ''#ff8000'' = hexToRgb ''ff8000''"
    by blast+
  then have 1: "hexToRgb ''ff8000'' = \<lparr>rgb_r = 255, rgb_g = 128, rgb_b = 0\<rparr>"
    by (simp add: digit_value_def)
  from C9 n have 3: "hexToRgb ''#ff80'' = \<lparr>rgb_r = 128, rgb_g = 128, rgb_b = 128\<rparr>"
    by blast
  from 1 2 3 show ?thesis by simp
qed

section \<open>Wraps per inch over an ordered catalog\<close>
















section \<open>C3: wraps per inch\<close>






section \<open>C8: the empty strand sequence\<close>

lemma createYarnTexture_empty:
  "createYarnTexture st [] =
     Inr (CanvasTexture 512 [FillStyle ''#FFFFFF'', FillRect 0 0 512 512])"
  by (simp add: createYarnTexture_def)

lemma fill_color_background:
  "fill_color (CanvasTexture 512 [FillStyle ''#FFFFFF'', FillRect 0 0 512 512]) = Some ''#FFFFFF''"
  by (simp add: fill_color_def CanvasTexture_def)

lemma white: "hexToRgb ''#FFFFFF'' = \<lparr>rgb_r = 255, rgb_g = 255, rgb_b = 255\<rparr>"
  by (simp add: hexToRgb_def hex_exec_def hex_digit_def parseInt16_def digit_value_def)

text \<open>
  C8 (as amended). For every state of the renderer, so for every needle size and yarn
  thickness, \<open>createYarnTexture\<close> on an empty strand sequence returns without error a
  512 by 512 canvas painted by one fill of its whole area with \<open>#FFFFFF\<close>, white; and
  \<open>render\<close> on an empty strand sequence returns without error, synthesizes no texture and
  installs the 3 by 3 placeholder plane, whose material has no texture and the colour
  \<open>0xdddddd\<close>. (\<open>createFabric\<close> itself, given no strands, puts the white raster on a
  material tinted from the gray (128, 128, 128).)
\<close>

theorem C8_empty_strands:
  "(\<exists>tex. createYarnTexture st [] = Inr tex \<and>
          canvas_width tex = 512 \<and> canvas_height tex = 512 \<and>
          calls tex = [FillStyle ''#FFFFFF'', FillRect 0 0 512 512] \<and>
          fill_color tex = Some ''#FFFFFF'') \<and>
   hexToRgb ''#FFFFFF'' = \<lparr>rgb_r = 255, rgb_g = 255, rgb_b = 255\<rparr> \<and>
   (\<exists>st' m. render st [] combinedThickness = Inr st' \<and> fabricMesh st' = Some m \<and>
            mat_map (material m) = None \<and> mat_color (material m) = ColorHex 0xdddddd \<and>
            geometry m = PlaneGeometry 3 3 32 32) \<and>
   (\<exists>st' m tex. createFabric st [] = Inr st' \<and> fabricMesh st' = Some m \<and>
            mat_map (material m) = Some tex \<and> fill_color tex = Some ''#FFFFFF'' \<and>
            mat_color (material m) = ColorRgbLerp 128 128 128 0xffffff 0.4)"
proof (intro conjI)
  show "\<exists>tex. createYarnTexture st [] = Inr tex \<and>
          canvas_width tex = 512 \<and> canvas_height tex = 512 \<and>
          calls tex = [FillStyle ''#FFFFFF'', FillRect 0 0 512 512] \<and>
          fill_color tex = Some ''#FFFFFF''"
    using fill_color_background
    by (simp add: createYarnTexture_empty) (simp add: CanvasTexture_def)
  show "hexToRgb ''#FFFFFF'' = \<lparr>rgb_r = 255, rgb_g = 255, rgb_b = 255\<rparr>"
    by (rule white)
  show "\<exists>st' m. render st [] combinedThickness = Inr st' \<and> fabricMesh st' = Some m \<and>
            mat_map (material m) = None \<and> mat_color (material m) = ColorHex 0xdddddd \<and>
            geometry m = PlaneGeometry 3 3 32 32"
    by (simp add: render_def createPlaceholder_def Let_def)
  show "\<exists>st' m tex. createFabric st [] = Inr st' \<and> fabricMesh st' = Some m \<and>
            mat_map (material m) = Some tex \<and> fill_color tex = Some ''#FFFFFF'' \<and>
            mat_color (material m) = ColorRgbLerp 128 128 128 0xffffff 0.4"
    by (simp add: createFabric_def createYarnTexture_empty average_color_def
        fill_color_background Let_def)
qed

text \<open>
  C8 as stated fails: the raster synthesized from an empty strand sequence is white, not
  gray.
\<close>

theorem C8_gray_counterexample:
  "createYarnTexture SwatchRenderer [] =
     Inr (CanvasTexture 512 [FillStyle ''#FFFFFF'', FillRect 0 0 512 512]) \<and>
   fill_color (CanvasTexture 512 [FillStyle ''#FFFFFF'', FillRect 0 0 512 512])
     = Some ''#FFFFFF'' \<and>
   hexToRgb ''#FFFFFF'' = \<lparr>rgb_r = 255, rgb_g = 255, rgb_b = 255\<rparr> \<and>
   \<not> neutral_gray (hexToRgb ''#FFFFFF'')"
  by (simp add: createYarnTexture_empty fill_color_background white neutral_gray_def)

section \<open>The vertices of a plane\<close>

lemma length_grid:
  "length (concat (map (\<lambda>iy. map (f iy) [0..<m]) [0..<n])) = n * m"
  by (induction n) simp_all

lemma nth_grid:
  assumes "ix < m" "iy < n"
  shows "concat (map (\<lambda>iy. map (f iy) [0..<m]) [0..<n]) ! (iy * m + ix) = f iy ix"
  using assms(2)
proof (induction n)
  case 0
  then show ?case by simp
next
  case (Suc n)
  show ?case
  proof (cases "iy < n")
    case True
    then have "Suc iy \<le> n" by simp
    then have "Suc iy * m \<le> n * m" by (rule mult_le_mono1)
    with assms(1) have "iy * m + ix < n * m" by simp
    with Suc.IH[OF True] show ?thesis by (simp add: nth_append length_grid)
  next
    case False
    with Suc.prems have "iy = n" by simp
    with assms(1) show ?thesis by (simp add: nth_append length_grid)
  qed
qed

lemma length_positions_PlaneGeometry:
  "length (positions (PlaneGeometry w h gx gy)) = (gx + 1) * (gy + 1)"
  by (simp add: PlaneGeometry_def length_grid del: upt_Suc)

lemma nth_positions_PlaneGeometry:
  assumes "k < (gx + 1) * (gy + 1)"
  shows "positions (PlaneGeometry w h gx gy) ! k =
           (real (k mod (gx + 1)) * (w / real gx) - w / 2,
            - (real (k div (gx + 1)) * (h / real gy) - h / 2),
            0)"
proof -
  have ix: "k mod (gx + 1) < gx + 1" by simp
  from assms have iy: "k div (gx + 1) < gy + 1"
    by (simp add: less_mult_imp_div_less mult.commute)
  have k: "k = k div (gx + 1) * (gx + 1) + k mod (gx + 1)"
    by (rule div_mult_mod_eq[symmetric])
  have "positions (PlaneGeometry w h gx gy) ! (k div (gx + 1) * (gx + 1) + k mod (gx + 1)) =
           (real (k mod (gx + 1)) * (w / real gx) - w / 2,
            - (real (k div (gx + 1)) * (h / real gy) - h / 2),
            0)"
    unfolding PlaneGeometry_def planeGeometry.simps
    by (rule nth_grid[OF ix iy])
  with k show ?thesis by simp
qed

section \<open>The animation\<close>

lemma displacement_edge:
  assumes "\<bar>x\<bar> = 1.75 \<or> \<bar>y\<bar> = 1.75"
  shows "displacement tm x y = 0"
  using assms by (auto simp: displacement_def edgeFactor_def Let_def)

lemma out_of_plane_animateFabric:
  assumes "fabricMesh st = Some m" "originalPositions st = Some original"
    and "k < length (positions (geometry m))"
  shows "out_of_plane (animateFabric st) k =
           Some (displacement (time st) (fst (original ! k)) (fst (snd (original ! k))))"
  using assms
  by (simp add: out_of_plane_def animateFabric_def Let_def split: prod.splits)

lemma animates_plane_animateFabric:
  "animates_plane st w n \<Longrightarrow> animates_plane (animateFabric st) w n"
  by (auto simp: animates_plane_def animateFabric_def Let_def split: option.splits)

lemma animates_plane_time:
  "animates_plane st w n \<Longrightarrow> animates_plane (st\<lparr>time := tm\<rparr>) w n"
  by (simp add: animates_plane_def)

lemma animates_plane_animate:
  "animates_plane st w n \<Longrightarrow> animates_plane (animate st) w n"
  by (simp add: animate_def animates_plane_animateFabric animates_plane_time)

lemma animates_plane_iterate:
  "animates_plane st w n \<Longrightarrow> animates_plane ((animate ^^ j) st) w n"
  by (induction j) (simp_all add: animates_plane_animate)

lemma animates_plane_createPlaceholder: "animates_plane (createPlaceholder st) 3 32"
  by (simp add: animates_plane_def createPlaceholder_def Let_def length_positions_PlaneGeometry)

lemma animates_plane_createFabric:
  "createFabric st0 strands = Inr st \<Longrightarrow> animates_plane st 3.5 64"
  by (auto simp: animates_plane_def createFabric_def Let_def length_positions_PlaneGeometry
      split: sum.splits prod.splits)

text \<open>The displacement of vertex \<open>k\<close> of an animated plane after \<open>animateFabric\<close>.\<close>

lemma out_of_plane_plane:
  assumes "animates_plane st w n" "k < (n + 1) * (n + 1)"
  shows "out_of_plane (animateFabric st) k =
           Some (displacement (time st)
                   (real (k mod (n + 1)) * (w / real n) - w / 2)
                   (- (real (k div (n + 1)) * (w / real n) - w / 2)))"
proof -
  from assms(1) obtain m where m: "fabricMesh st = Some m"
      "length (positions (geometry m)) = (n + 1) * (n + 1)"
      and o: "originalPositions st = Some (positions (PlaneGeometry w w n n))"
    by (auto simp: animates_plane_def split: option.splits)
  from assms(2) m(2) have "k < length (positions (geometry m))" by simp
  from out_of_plane_animateFabric[OF m(1) o this]
  show ?thesis by (simp add: nth_positions_PlaneGeometry[OF assms(2)])
qed

section \<open>The constructed renderer\<close>

lemma SwatchRenderer_frame:
  "SwatchRenderer =
     animateFabric ((createPlaceholder initial_fields)\<lparr>isAnimating := True, time := 0.016\<rparr>)"
  by (simp add: SwatchRenderer_def startAnimation_def animate_def createPlaceholder_def
      initial_fields_def Let_def)

lemma animates_plane_first_frame:
  "animates_plane ((createPlaceholder initial_fields)\<lparr>isAnimating := True, time := 0.016\<rparr>) 3 32"
  using animates_plane_createPlaceholder[of initial_fields]
  by (simp add: animates_plane_def)

lemma animates_plane_SwatchRenderer: "animates_plane SwatchRenderer 3 32"
  unfolding SwatchRenderer_frame
  by (rule animates_plane_animateFabric[OF animates_plane_first_frame])

section \<open>Bounds on the sine\<close>

lemma pi_ge_three: "3 \<le> pi"
proof -
  have "sin (pi / 6) \<le> pi / 6" by (rule sin_x_le_x) simp
  then show ?thesis by (simp add: sin_30)
qed

lemma sin_ge_sqrt2_half:
  assumes "pi / 4 \<le> x" "x \<le> 3 * pi / 4"
  shows "sqrt 2 / 2 \<le> sin x"
proof (cases "x \<le> pi / 2")
  case True
  have "sin (pi / 4) \<le> sin x"
    by (rule sin_monotone_2pi_le) (use assms True in simp_all)
  then show ?thesis by (simp add: sin_45)
next
  case False
  have "sin (pi / 4) \<le> sin (pi - x)"
    by (rule sin_monotone_2pi_le) (use assms False in simp_all)
  then show ?thesis by (simp add: sin_45)
qed

lemma sqrt2_half_gt: "3 / 5 < sqrt 2 / 2"
proof -
  have "(6 / 5) ^ 2 < (2 :: real)" by (simp add: power2_eq_square)
  then have "6 / 5 < sqrt 2" by (rule real_less_rsqrt)
  then show ?thesis by simp
qed

lemma wave_sum_pos:
  fixes a b c d :: real
  assumes "0 < a" "0 \<le> b" "3 / 5 < c" "- 1 \<le> d"
  shows "0 < a * 0.18 + b * 0.14 + c * 0.1 + d * 0.06"
proof -
  have "0 < a * (9 / 50) + b * (7 / 50) + c * (1 / 10) + d * (3 / 50)"
    using assms by linarith
  then show ?thesis by simp
qed

lemma placeholder_edge_moves: "0 < displacement 0.016 1.5 0"
proof -
  have s1: "0 < sin (1.5 * 1.8 + 0.016 * 0.6 :: real)"
    by (rule sin_gt_zero) (use pi_ge_three in simp_all)
  have s2: "0 \<le> sin (0 * 2.2 + 0.016 * 0.9 :: real)"
    by (rule sin_ge_zero) (use pi_ge_three in simp_all)
  have "sqrt 2 / 2 \<le> sin ((1.5 + 0) * 1.2 + 0.016 * 0.4 :: real)"
    by (rule sin_ge_sqrt2_half) (use pi_ge_three pi_less_4 in simp_all)
  with sqrt2_half_gt have s3: "3 / 5 < sin ((1.5 + 0) * 1.2 + 0.016 * 0.4 :: real)" by simp
  have s4: "- 1 \<le> sin (1.5 * 3.0 - 0.016 * 1.1 :: real)" by (rule sin_ge_minus_one)
  have e: "edgeFactor 1.5 0 = 127 / 343"
    by (simp add: edgeFactor_def power3_eq_cube)
  have "0 < sin (1.5 * 1.8 + 0.016 * 0.6 :: real) * 0.18
          + sin (0 * 2.2 + 0.016 * 0.9 :: real) * 0.14
          + sin ((1.5 + 0) * 1.2 + 0.016 * 0.4 :: real) * 0.1
          + sin (1.5 * 3.0 - 0.016 * 1.1 :: real) * 0.06"
    using s1 s2 s3 s4 by (rule wave_sum_pos)
  then show ?thesis
    unfolding displacement_def Let_def e by simp
qed

section \<open>C7: the edges of the animated plane\<close>

lemma fabric_boundary_pinned:
  assumes "animates_plane st 3.5 64" "boundary_index 64 64 k"
  shows "out_of_plane (animateFabric st) k = Some 0"
proof -
  from assms(2) have k: "k < (64 + 1) * (64 + 1)"
    and b: "k mod 65 = 0 \<or> k mod 65 = 64 \<or> k div 65 = 0 \<or> k div 65 = 64"
    by (simp_all add: boundary_index_def)
  have "\<bar>real (k mod (64 + 1)) * (3.5 / real 64) - 3.5 / 2\<bar> = 1.75 \<or>
        \<bar>- (real (k div (64 + 1)) * (3.5 / real 64) - 3.5 / 2)\<bar> = 1.75"
    using b by auto
  from displacement_edge[OF this] out_of_plane_plane[OF assms(1) k]
  show ?thesis by simp
qed

lemma edgeFactor_range:
  assumes "\<bar>x\<bar> \<le> 1.75" "\<bar>y\<bar> \<le> 1.75"
  shows "0 \<le> edgeFactor x y" "edgeFactor x y \<le> 1"
proof -
  have r: "0 \<le> 1 - (\<bar>u\<bar> / 1.75) ^ 3 \<and> 1 - (\<bar>u\<bar> / 1.75) ^ 3 \<le> 1" if "\<bar>u\<bar> \<le> 1.75" for u :: real
  proof -
    from that have "0 \<le> \<bar>u\<bar> / 1.75" "\<bar>u\<bar> / 1.75 \<le> 1" by simp_all
    then have "0 \<le> (\<bar>u\<bar> / 1.75) ^ 3" "(\<bar>u\<bar> / 1.75) ^ 3 \<le> 1"
      by (simp_all add: power_le_one)
    then show ?thesis by simp
  qed
  from r[OF assms(1)] r[OF assms(2)]
  show "0 \<le> edgeFactor x y" "edgeFactor x y \<le> 1"
    unfolding edgeFactor_def
    by (simp_all add: mult_le_one)
qed

lemma wave_sum_bound:
  fixes a b c d :: real
  assumes "\<bar>a\<bar> \<le> 1" "\<bar>b\<bar> \<le> 1" "\<bar>c\<bar> \<le> 1" "\<bar>d\<bar> \<le> 1"
  shows "\<bar>a * 0.18 + b * 0.14 + c * 0.1 + d * 0.06\<bar> \<le> 0.48"
proof -
  have "\<bar>a * (9 / 50) + b * (7 / 50) + c * (1 / 10) + d * (3 / 50)\<bar> \<le> 12 / 25"
    using assms by linarith
  then show ?thesis by simp
qed

lemma displacement_envelope: "\<bar>displacement tm x y\<bar> \<le> 0.48 * max 0 (edgeFactor x y)"
proof -
  have "\<bar>sin (x * 1.8 + tm * 0.6) * 0.18 + sin (y * 2.2 + tm * 0.9) * 0.14
         + sin ((x + y) * 1.2 + tm * 0.4) * 0.1 + sin (x * 3.0 - tm * 1.1) * 0.06\<bar> \<le> 0.48"
    by (rule wave_sum_bound) simp_all
  then have "\<bar>sin (x * 1.8 + tm * 0.6) * 0.18 + sin (y * 2.2 + tm * 0.9) * 0.14
         + sin ((x + y) * 1.2 + tm * 0.4) * 0.1 + sin (x * 3.0 - tm * 1.1) * 0.06\<bar>
        * max 0 (edgeFactor x y) \<le> 0.48 * max 0 (edgeFactor x y)"
    by (rule mult_right_mono) simp
  then show ?thesis
    by (simp add: displacement_def Let_def abs_mult)
qed

text \<open>
  The plane of \<open>createFabric\<close>, 3.5 by 3.5: for every time value each vertex on its outer
  boundary has zero out-of-plane displacement after \<open>animateFabric\<close>, and so after every
  frame of the animation. The edge factor is 1 at the centre of the plane and between 0
  and 1 on the whole plane, and the magnitude of the displacement of a vertex is at most
  0.48 times its edge factor.
\<close>

theorem fabric_edges_pinned:
  assumes "createFabric st0 strands = Inr st" "boundary_index 64 64 k"
  shows "out_of_plane (animateFabric (st\<lparr>time := tm\<rparr>)) k = Some 0 \<and>
         out_of_plane ((animate ^^ Suc j) st) k = Some 0 \<and>
         edgeFactor 0 0 = 1 \<and>
         (\<bar>x\<bar> \<le> 1.75 \<and> \<bar>y\<bar> \<le> 1.75 \<longrightarrow> 0 \<le> edgeFactor x y \<and> edgeFactor x y \<le> 1) \<and>
         \<bar>displacement tm x y\<bar> \<le> 0.48 * max 0 (edgeFactor x y)"
proof (intro conjI impI)
  from animates_plane_createFabric[OF assms(1)] have p: "animates_plane st 3.5 64" .
  from fabric_boundary_pinned[OF animates_plane_time[OF p] assms(2)]
  show "out_of_plane (animateFabric (st\<lparr>time := tm\<rparr>)) k = Some 0" .
  from animates_plane_iterate[OF p, of j]
  have "animates_plane (((animate ^^ j) st)\<lparr>time := time ((animate ^^ j) st) + 0.016\<rparr>) 3.5 64"
    by (rule animates_plane_time)
  from fabric_boundary_pinned[OF this assms(2)]
  show "out_of_plane ((animate ^^ Suc j) st) k = Some 0"
    by (simp add: animate_def)
  show "edgeFactor 0 0 = 1" by (simp add: edgeFactor_def)
  show "\<bar>displacement tm x y\<bar> \<le> 0.48 * max 0 (edgeFactor x y)"
    by (rule displacement_envelope)
next
  assume h: "\<bar>x\<bar> \<le> 1.75 \<and> \<bar>y\<bar> \<le> 1.75"
  then show "0 \<le> edgeFactor x y" "edgeFactor x y \<le> 1"
    using edgeFactor_range[of x y] by simp_all
qed

lemma sr_needleSize_SwatchRenderer: "sr_needleSize SwatchRenderer = 4"
  unfolding SwatchRenderer_frame
  by (simp add: animateFabric_def createPlaceholder_def initial_fields_def Let_def)

lemma createFabric_returns:
  assumes "sr_needleSize st \<noteq> - 7"
  shows "\<exists>st'. createFabric st strands = Inr st'"
proof -
  from assms have "14 + sr_needleSize st * 2 \<noteq> 0" by simp
  then have "\<exists>tex. createYarnTexture st strands = Inr tex"
    by (simp add: createYarnTexture_def Let_def)
  then show ?thesis
    by (auto simp: createFabric_def Let_def split: prod.splits)
qed

theorem fabric_edges_pinned_example:
  "\<exists>st. createFabric SwatchRenderer [\<lparr>strand_color = ''#ff8000''\<rparr>] = Inr st \<and>
        boundary_index 64 64 64 \<and>
        out_of_plane (animateFabric (st\<lparr>time := 2\<rparr>)) 64 = Some 0 \<and>
        out_of_plane ((animate ^^ Suc 0) st) 64 = Some 0 \<and>
        \<bar>1 :: real\<bar> \<le> 1.75 \<and> \<bar>0 :: real\<bar> \<le> 1.75 \<and>
        0 \<le> edgeFactor 1 0 \<and> edgeFactor 1 0 \<le> 1"
proof -
  have "sr_needleSize SwatchRenderer \<noteq> - 7" by (simp add: sr_needleSize_SwatchRenderer)
  from createFabric_returns[OF this] obtain st where
    st: "createFabric SwatchRenderer [\<lparr>strand_color = ''#ff8000''\<rparr>] = Inr st" by blast
  have b: "boundary_index 64 64 64" by (simp add: boundary_index_def)
  have r: "\<bar>1 :: real\<bar> \<le> 1.75 \<and> \<bar>0 :: real\<bar> \<le> 1.75" by simp
  from fabric_edges_pinned[OF st b, of 2 0 1 0] r st b show ?thesis by blast
qed

text \<open>
  C7. Every vertex on the outer boundary of the animated plane should have zero
  out-of-plane displacement at every time. The renderer does not keep this on the plane
  it animates first: the placeholder is 3 by 3, its boundary is at distance 1.5 from the
  centre, and the edge factor, which vanishes at distance 1.75, is not zero there. After
  the first frame (time 0.016) the vertex in the middle of the right edge of the
  placeholder (vertex 560, at \<open>(1.5, 0)\<close>) is displaced.
\<close>

theorem C7_placeholder_edge_moves:
  "boundary_index 32 32 560 \<and> animates_plane SwatchRenderer 3 32 \<and>
   out_of_plane SwatchRenderer 560 = Some (displacement 0.016 1.5 0) \<and>
   0 < displacement 0.016 1.5 0"
proof -
  have b: "boundary_index 32 32 560" by (simp add: boundary_index_def)
  have k: "560 < (32 + 1) * (32 + 1 :: nat)" by simp
  have "out_of_plane SwatchRenderer 560 = Some (displacement 0.016 1.5 0)"
    unfolding SwatchRenderer_frame
    using out_of_plane_plane[OF animates_plane_first_frame k] by simp
  with b animates_plane_SwatchRenderer placeholder_edge_moves show ?thesis by simp
qed

end
